theory Spec2Isabelle
  imports Main "HOL-Library.Word"
begin

section \<open>JavaScript values\<close>

text \<open>
  Request bodies, decoded token payloads and parsed JSON are JavaScript values. Numbers
  are kept as integers: the handlers only test them for truthiness and identity, never
  compute with them. An object is its list of own properties.
\<close>

datatype jsval =
    JUndefined
  | JNull
  | JBool bool
  | JNum int
  | JStr string
  | JArray "jsval list"
  | JObject "(string \<times> jsval) list"

text \<open>The truthiness test of \<^verbatim>\<open>if (v)\<close>, \<^verbatim>\<open>!v\<close> and \<^verbatim>\<open>a && b\<close>.\<close>

fun truthy :: "jsval \<Rightarrow> bool" where
  "truthy JUndefined = False"
| "truthy JNull = False"
| "truthy (JBool b) = b"
| "truthy (JNum n) = (n \<noteq> 0)"
| "truthy (JStr s) = (s \<noteq> [])"
| "truthy (JArray xs) = True"
| "truthy (JObject ps) = True"

text \<open>
  Reading a property \<^verbatim>\<open>v.name\<close> of a truthy value: an object yields the property
  or \<^verbatim>\<open>undefined\<close>; a primitive or an array has no such own property.
\<close>

fun get_prop :: "jsval \<Rightarrow> string \<Rightarrow> jsval" where
  "get_prop (JObject ps) name = (case map_of ps name of None \<Rightarrow> JUndefined | Some v \<Rightarrow> v)"
| "get_prop v name = JUndefined"

text \<open>
  A request body is an object read by field name; a field that was not sent reads as
  \<^verbatim>\<open>undefined\<close>.
\<close>

type_synonym body = "string \<Rightarrow> jsval"

text \<open>
  An environment variable is a string or \<^verbatim>\<open>undefined\<close>. \<open>strict_eq_env v e\<close> is
  \<^verbatim>\<open>v === process.env.X\<close>: equal types and equal contents.
\<close>

definition strict_eq_env :: "jsval \<Rightarrow> string option \<Rightarrow> bool" where
  "strict_eq_env v e = (case e of None \<Rightarrow> v = JUndefined | Some s \<Rightarrow> v = JStr s)"

text \<open>
  The property key under which a string-or-undefined value indexes an object:
  \<^verbatim>\<open>undefined\<close> is converted to the string of its name.
\<close>

definition property_key :: "string option \<Rightarrow> string" where
  "property_key e = (case e of None \<Rightarrow> ''undefined'' | Some s \<Rightarrow> s)"

text \<open>\<^verbatim>\<open>xs.join(sep)\<close> on an array of strings.\<close>

fun join :: "string \<Rightarrow> string list \<Rightarrow> string" where
  "join sep [] = []"
| "join sep [x] = x"
| "join sep (x # y # ys) = x @ sep @ join sep (y # ys)"

text \<open>\<^verbatim>\<open>s.startsWith(p)\<close>.\<close>

definition startsWith :: "string \<Rightarrow> string \<Rightarrow> bool" where
  "startsWith s p = (take (length p) s = p)"

section \<open>HTTP responses and thrown errors\<close>

record 'a response =
  status :: nat
  message :: string
  payload :: "'a option"

definition reply :: "nat \<Rightarrow> string \<Rightarrow> 'a response" where
  "reply code msg = \<lparr>status = code, message = msg, payload = None\<rparr>"

definition reply_with :: "nat \<Rightarrow> string \<Rightarrow> 'a \<Rightarrow> 'a response" where
  "reply_with code msg x = \<lparr>status = code, message = msg, payload = Some x\<rparr>"

text \<open>
  What a collaborator can throw into a handler's \<^verbatim>\<open>catch\<close>: a schema validation
  error with its messages, a cast error of a given kind, a type error of the handler's
  own code, or anything else.
\<close>

datatype js_error =
    ValidationError "string list"
  | CastError string
  | TypeError
  | OtherError

datatype 'a outcome = Returns 'a | Throws js_error

section \<open>One-time passcodes: \<^verbatim>\<open>routes/authRoutes.js\<close>\<close>

record config =
  CLUB_EMAIL :: "string option"
  ADMIN_SECRET :: "string option"
  JWT_SECRET :: "string option"

record otp_entry =
  otp :: string
  expires :: int

text \<open>
  \<^verbatim>\<open>otpStore\<close> is an object used as a dictionary from email to entry, modelled by the
  map of its own properties. The only key the routes ever use is the configured admin
  address (both routes compare \<^verbatim>\<open>email\<close> with it first). The configured address is
  taken to be a mailbox address, not the name of a member every object inherits (such
  as \<^verbatim>\<open>constructor\<close>), for which a lookup would find the inherited member.
\<close>

type_synonym otpStore = "string \<rightharpoonup> otp_entry"

text \<open>\<^verbatim>\<open>crypto.randomBytes(3).toString('hex')\<close>: three bytes, two lower-case digits each.\<close>

definition hex_digit :: "nat \<Rightarrow> char" where
  "hex_digit n = ''0123456789abcdef'' ! (n mod 16)"

definition hex_byte :: "8 word \<Rightarrow> string" where
  "hex_byte b = [hex_digit (unat b div 16), hex_digit (unat b mod 16)]"

definition toString_hex :: "8 word list \<Rightarrow> string" where
  "toString_hex bs = concat (map hex_byte bs)"

type_synonym randomBytes3 = "8 word \<times> 8 word \<times> 8 word"

definition new_otp :: "randomBytes3 \<Rightarrow> string" where
  "new_otp r = (case r of (a, b, c) \<Rightarrow> toString_hex [a, b, c])"

text \<open>
  The mail handed to the transporter by \<^verbatim>\<open>sendOtpEmail(email, otp)\<close>. The transporter
  is a collaborator: \<open>sendMail m\<close> tells whether the delivery of \<open>m\<close> went through
  (\<open>False\<close>: the awaited call throws).
\<close>

record mail =
  mail_from :: "string option"
  mail_to :: jsval
  mail_otp :: string

definition sendOtpEmail :: "config \<Rightarrow> (mail \<Rightarrow> bool) \<Rightarrow> jsval \<Rightarrow> string \<Rightarrow> bool" where
  "sendOtpEmail cfg sendMail email code =
     sendMail \<lparr>mail_from = CLUB_EMAIL cfg, mail_to = email, mail_otp = code\<rparr>"

text \<open>
  \<^verbatim>\<open>POST /api/auth/generate-otp\<close>. \<open>now\<close> is \<^verbatim>\<open>Date.now()\<close> in milliseconds, \<open>rnd\<close>
  the random bytes drawn. Past the first guard \<^verbatim>\<open>email\<close> is identical to the
  configured address, which therefore gives the key of \<^verbatim>\<open>otpStore[email]\<close>.
\<close>

definition generate_otp ::
  "config \<Rightarrow> int \<Rightarrow> randomBytes3 \<Rightarrow> (mail \<Rightarrow> bool) \<Rightarrow> body \<Rightarrow> otpStore
     \<Rightarrow> string response \<times> otpStore" where
  "generate_otp cfg now rnd sendMail b store =
     (let email = b ''email''; adminSecret = b ''adminSecret'' in
      if \<not> strict_eq_env email (CLUB_EMAIL cfg) then
        (reply 400 ''Invalid admin email.'', store)
      else if \<not> strict_eq_env adminSecret (ADMIN_SECRET cfg) then
        (reply 401 ''Invalid Admin Secret Key.'', store)
      else
        let code = new_otp rnd;
            expiry = now + 10 * 60 * 1000;
            store' = store(property_key (CLUB_EMAIL cfg) \<mapsto> \<lparr>otp = code, expires = expiry\<rparr>)
        in if sendOtpEmail cfg sendMail email code
           then (reply 200 ''OTP sent to admin email.'', store')
           else (reply 500 ''Failed to send OTP. Please check server logs.'', store'))"

text \<open>
  The signing of the token is a collaborator as well: it hands back the token, or it
  reports an error to the callback while \<^verbatim>\<open>jwt.sign\<close> is still running inside the
  \<^verbatim>\<open>try\<close> block, where the callback rethrows it.
\<close>

datatype sign_outcome = Signed string | SignError

text \<open>
  \<^verbatim>\<open>POST /api/auth/verify-otp\<close>. \<open>findOne\<close> is what
  \<^verbatim>\<open>User.findOne({email, role: 'admin'})\<close> does: it returns a document or
  \<^verbatim>\<open>null\<close>, or it throws.
\<close>

definition jwt_payload :: "jsval \<Rightarrow> jsval" where
  "jwt_payload adminUser =
     JObject [(''user'', JObject [(''id'', get_prop adminUser ''_id''),
                                  (''role'', get_prop adminUser ''role'')])]"

definition admin_placeholder :: jsval where
  "admin_placeholder =
     JObject [(''_id'', JStr ''admin_id_placeholder_from_authroutes''), (''role'', JStr ''admin'')]"

definition verify_otp ::
  "config \<Rightarrow> int \<Rightarrow> jsval outcome \<Rightarrow> (jsval \<Rightarrow> string option \<Rightarrow> sign_outcome) \<Rightarrow> body \<Rightarrow> otpStore
     \<Rightarrow> string response \<times> otpStore" where
  "verify_otp cfg now findOne sign b store =
     (let email = b ''email''; code = b ''otp'' in
      if \<not> strict_eq_env email (CLUB_EMAIL cfg) then
        (reply 400 ''Invalid admin email.'', store)
      else
        (case store (property_key (CLUB_EMAIL cfg)) of
           None \<Rightarrow> (reply 400 ''Invalid or expired OTP.'', store)
         | Some storedOtpData \<Rightarrow>
             if JStr (otp storedOtpData) \<noteq> code \<or> now > expires storedOtpData then
               (reply 400 ''Invalid or expired OTP.'', store)
             else
               (let store' = store(property_key (CLUB_EMAIL cfg) := None) in
                (case findOne of
                   Throws err \<Rightarrow> (reply 500 ''Server error during login.'', store')
                 | Returns found \<Rightarrow>
                     (let adminUser = (if \<not> truthy found then admin_placeholder else found) in
                      (case sign (jwt_payload adminUser) (JWT_SECRET cfg) of
                         SignError \<Rightarrow> (reply 500 ''Server error during login.'', store')
                       | Signed t \<Rightarrow>
                           (reply_with 200 ''Logged in successfully!'' t, store')))))))"

text \<open>A run of the two routes over the shared store, one request after the other.\<close>

datatype auth_request =
    GenerateOtp int randomBytes3 "mail \<Rightarrow> bool" body
  | VerifyOtp int "jsval outcome" "jsval \<Rightarrow> string option \<Rightarrow> sign_outcome" body

fun auth_step :: "config \<Rightarrow> auth_request \<Rightarrow> otpStore \<Rightarrow> otpStore" where
  "auth_step cfg (GenerateOtp now rnd sendMail b) store = snd (generate_otp cfg now rnd sendMail b store)"
| "auth_step cfg (VerifyOtp now findOne sign b) store = snd (verify_otp cfg now findOne sign b store)"

fun auth_run :: "config \<Rightarrow> auth_request list \<Rightarrow> otpStore \<Rightarrow> otpStore" where
  "auth_run cfg [] store = store"
| "auth_run cfg (r # rs) store = auth_run cfg rs (auth_step cfg r store)"

section \<open>Token check and role gate: \<^verbatim>\<open>middleware/authMiddleware.js\<close>\<close>

text \<open>
  What the two middlewares read and write of a request: the \<^verbatim>\<open>Authorization\<close> header
  and \<^verbatim>\<open>req.user\<close>. A middleware either answers the request itself or calls
  \<^verbatim>\<open>next()\<close>, handing the request on.
\<close>

record request =
  authorization :: "string option"
  user :: jsval

type_synonym middleware = "request \<Rightarrow> unit response + request"

text \<open>\<^verbatim>\<open>s.split(c)\<close> for a one-character separator.\<close>

fun split :: "char \<Rightarrow> string \<Rightarrow> string list" where
  "split c [] = [[]]"
| "split c (x # xs) =
     (if x = c then [] # split c xs
      else (case split c xs of [] \<Rightarrow> [[x]] | y # ys \<Rightarrow> (x # y) # ys))"

text \<open>
  \<open>jwt_verify token secret\<close> stands for \<^verbatim>\<open>jwt.verify\<close>: the decoded payload, or a
  throw when the signature or the expiry is wrong.
\<close>

definition authenticateToken ::
  "(string \<Rightarrow> string option \<Rightarrow> jsval outcome) \<Rightarrow> config \<Rightarrow> middleware" where
  "authenticateToken jwt_verify cfg req =
     (case authorization req of
        None \<Rightarrow> Inl (reply 401 ''No token, authorization denied'')
      | Some authHeader \<Rightarrow>
          if authHeader = [] then Inl (reply 401 ''No token, authorization denied'')
          else
            let parts = split CHR '' '' authHeader in
            if length parts < 2 \<or> parts ! 1 = [] then
              Inl (reply 401 ''Token format invalid, authorization denied'')
            else
              (case jwt_verify (parts ! 1) (JWT_SECRET cfg) of
                 Throws err \<Rightarrow> Inl (reply 401 ''Token is not valid or expired'')
               | Returns decoded \<Rightarrow> Inr (req\<lparr>user := get_prop decoded ''user''\<rparr>)))"

text \<open>\<^verbatim>\<open>roles.includes(v)\<close> for an array of strings: only an equal string is found.\<close>

fun array_includes :: "string list \<Rightarrow> jsval \<Rightarrow> bool" where
  "array_includes roles (JStr s) = (s \<in> set roles)"
| "array_includes roles v = False"

definition authorizeRoles :: "string list \<Rightarrow> middleware" where
  "authorizeRoles roles req =
     (if \<not> truthy (user req) \<or> \<not> truthy (get_prop (user req) ''role'') then
        Inl (reply 403 ''Access denied: No user or role information found in token.'')
      else if \<not> array_includes roles (get_prop (user req) ''role'') then
        Inl (reply 403 (''Access denied: Requires one of the following roles: '' @ join '', '' roles))
      else Inr req)"

section \<open>Uploaded files: \<^verbatim>\<open>config/multerConfig.js\<close>\<close>

text \<open>
  The disk is the set of paths that hold a file. \<open>root\<close> is the backend directory, the
  parent of the directory of the route and configuration modules. The upload library
  has written the file of a request before its handler runs, under the uploads
  directory and under the name the storage configuration generated.
\<close>

record upload_file =
  filename :: string
  path :: string

definition multer_file :: "string \<Rightarrow> string \<Rightarrow> upload_file" where
  "multer_file root name = \<lparr>filename = name, path = root @ ''/uploads/'' @ name\<rparr>"

text \<open>
  \<^verbatim>\<open>fs.unlink(p, callback)\<close>: the file is gone afterwards; a failure is logged by the
  callback and nothing else happens.
\<close>

definition unlink :: "string \<Rightarrow> string set \<Rightarrow> string set" where
  "unlink p disk = disk - {p}"

text \<open>
  \<^verbatim>\<open>path.normalize\<close> for POSIX paths. The path is cut at its slashes; empty
  segments and \<^verbatim>\<open>.\<close> are dropped; \<^verbatim>\<open>..\<close> removes the segment before it, and
  where there is none it is dropped in an absolute path and kept in a relative one.
  The leading slash of an absolute path and a trailing slash are kept.
\<close>

fun normalize_segments :: "bool \<Rightarrow> string list \<Rightarrow> string list \<Rightarrow> string list" where
  "normalize_segments allowAboveRoot [] res = rev res"
| "normalize_segments allowAboveRoot (s # ss) res =
     (if s = [] \<or> s = ''.'' then normalize_segments allowAboveRoot ss res
      else if s = ''..'' then
        (case res of
           [] \<Rightarrow> normalize_segments allowAboveRoot ss (if allowAboveRoot then [s] else [])
         | lastSegment # below \<Rightarrow>
             if lastSegment = ''..''
             then normalize_segments allowAboveRoot ss (if allowAboveRoot then s # res else res)
             else normalize_segments allowAboveRoot ss below)
      else normalize_segments allowAboveRoot ss (s # res))"

definition path_normalize :: "string \<Rightarrow> string" where
  "path_normalize p =
     (if p = [] then ''.''
      else
        let isAbsolute = (hd p = CHR ''/'');
            trailingSeparator = (last p = CHR ''/'');
            res = join ''/'' (normalize_segments (\<not> isAbsolute) (split CHR ''/'' p) [])
        in if res = [] then (if isAbsolute then ''/'' else if trailingSeparator then ''./'' else ''.'')
           else (if isAbsolute then ''/'' else []) @ res @ (if trailingSeparator then ''/'' else []))"

text \<open>
  \<^verbatim>\<open>path.join(__dirname, '..', posterPath)\<close>: the non-empty arguments are joined by
  slashes and the result is normalised. \<open>root\<close> is the backend directory, that is
  \<^verbatim>\<open>path.join(__dirname, '..')\<close>.
\<close>

definition path_join :: "string \<Rightarrow> string \<Rightarrow> string" where
  "path_join root posterPath =
     path_normalize (if posterPath = [] then root else root @ ''/'' @ posterPath)"

text \<open>
  \<^verbatim>\<open>deleteOldPoster\<close>. A truthy value that is no string has no \<^verbatim>\<open>startsWith\<close>
  method: the call throws a type error.
\<close>

definition deleteOldPoster :: "string \<Rightarrow> jsval \<Rightarrow> string set \<Rightarrow> string set outcome" where
  "deleteOldPoster root posterPath disk =
     (if \<not> truthy posterPath then Returns disk
      else case posterPath of
             JStr s \<Rightarrow>
               if startsWith s ''/uploads/'' then Returns (unlink (path_join root s) disk)
               else Returns disk
           | _ \<Rightarrow> Throws TypeError)"

section \<open>Events: \<^verbatim>\<open>models/Event.js\<close> and \<^verbatim>\<open>routes/eventRoutes.js\<close>\<close>

record poster =
  ptype :: jsval
  pvalue :: jsval

text \<open>\<^verbatim>\<open>new Date(v)\<close>, kept as the value it was built from.\<close>

datatype jsdate = NewDate jsval

record event =
  eventName :: jsval
  eventDate :: jsdate
  eventTime :: jsval
  eventLocation :: jsval
  eventLink :: jsval
  academicYear :: jsval
  description :: jsval
  speakers :: jsval
  poster :: poster

text \<open>
  The server's state: the event collection by document id, and the disk. The document
  store is a collaborator. It either takes a write or throws, and it names the new
  document; a new document is kept as it was handed over (the schema's own casts and
  trimming are the store's business), an update is applied as \<open>apply_set\<close> says.
\<close>

record server =
  events :: "string \<rightharpoonup> event"
  disk :: "string set"

record update_fields =
  set_eventName :: jsval
  set_eventDate :: jsdate
  set_eventTime :: jsval
  set_eventLocation :: jsval
  set_eventLink :: jsval
  set_academicYear :: jsval
  set_description :: jsval
  set_speakers :: "jsval option"
  set_poster :: "poster option"

record store_env =
  save_error :: "event \<Rightarrow> js_error option"
  save_id :: "event \<Rightarrow> string"
  find_error :: "string \<Rightarrow> js_error option"
  update_error :: "string \<Rightarrow> update_fields \<Rightarrow> js_error option"
  delete_error :: "string \<Rightarrow> js_error option"

text \<open>
  \<^verbatim>\<open>findByIdAndUpdate(id, { $set: updateFields })\<close> as the store applies it. A key
  whose value is \<^verbatim>\<open>undefined\<close> is dropped from the update, and so is a key the schema
  does not declare (\<^verbatim>\<open>eventTime\<close>, \<^verbatim>\<open>eventLocation\<close>, \<^verbatim>\<open>eventLink\<close>,
  \<^verbatim>\<open>description\<close>): the stored values stay. The other listed fields replace the
  stored ones. \<^verbatim>\<open>eventDate\<close> is always a \<^verbatim>\<open>Date\<close> object, never \<^verbatim>\<open>undefined\<close>;
  \<^verbatim>\<open>speakers\<close> and \<^verbatim>\<open>poster\<close> are listed only when the route has set them.
\<close>

definition apply_set :: "update_fields \<Rightarrow> event \<Rightarrow> event" where
  "apply_set u e =
     \<lparr>eventName = (if set_eventName u = JUndefined then eventName e else set_eventName u),
      eventDate = set_eventDate u,
      eventTime = eventTime e,
      eventLocation = eventLocation e,
      eventLink = eventLink e,
      academicYear = (if set_academicYear u = JUndefined then academicYear e else set_academicYear u),
      description = description e,
      speakers = (case set_speakers u of None \<Rightarrow> speakers e | Some s \<Rightarrow> s),
      poster = (case set_poster u of None \<Rightarrow> poster e | Some p \<Rightarrow> p)\<rparr>"

record event_request =
  params_id :: string
  body :: body
  req_file :: "upload_file option"

text \<open>
  The check both routes run on the parsed speakers:
  \<^verbatim>\<open>Array.isArray(v) && v.every(s => typeof s === 'object' && s !== null)\<close>.
\<close>

fun is_object :: "jsval \<Rightarrow> bool" where
  "is_object (JArray xs) = True"
| "is_object (JObject ps) = True"
| "is_object v = False"

fun array_of_objects :: "jsval \<Rightarrow> bool" where
  "array_of_objects (JArray xs) = list_all is_object xs"
| "array_of_objects v = False"

text \<open>
  \<open>JSON_parse\<close> stands for \<^verbatim>\<open>JSON.parse\<close>: the parsed value, or \<open>None\<close> when it
  throws a syntax error. \<open>parse_speakers\<close> is the inner \<^verbatim>\<open>try\<close> of both routes:
  \<open>None\<close> when its \<^verbatim>\<open>catch\<close> is reached.
\<close>

definition parse_speakers :: "(jsval \<Rightarrow> jsval option) \<Rightarrow> jsval \<Rightarrow> jsval option" where
  "parse_speakers JSON_parse v =
     (case JSON_parse v of
        None \<Rightarrow> None
      | Some parsed \<Rightarrow> if array_of_objects parsed then Some parsed else None)"

text \<open>
  The create route parses the field when it is truthy and takes the empty list
  otherwise; the update route parses it whenever it was sent, and leaves the stored
  speakers alone otherwise (\<open>Some None\<close>).
\<close>

definition create_speakers :: "(jsval \<Rightarrow> jsval option) \<Rightarrow> body \<Rightarrow> jsval option" where
  "create_speakers JSON_parse b =
     (if truthy (b ''speakers'') then parse_speakers JSON_parse (b ''speakers'')
      else Some (JArray []))"

definition update_speakers :: "(jsval \<Rightarrow> jsval option) \<Rightarrow> body \<Rightarrow> jsval option option" where
  "update_speakers JSON_parse b =
     (if b ''speakers'' \<noteq> JUndefined
      then map_option Some (parse_speakers JSON_parse (b ''speakers''))
      else Some None)"

text \<open>The poster of a new event, lines 84 to 96 of the create route.\<close>

definition placeholder :: string where
  "placeholder = ''https://via.placeholder.com/300x200?text=No+Poster''"

definition create_poster :: "upload_file option \<Rightarrow> body \<Rightarrow> poster" where
  "create_poster f b =
     (case f of
        Some u \<Rightarrow> \<lparr>ptype = JStr ''upload'', pvalue = JStr (''/uploads/'' @ filename u)\<rparr>
      | None \<Rightarrow>
          if b ''posterType'' = JStr ''url'' \<and> truthy (b ''posterValue'')
          then \<lparr>ptype = b ''posterType'', pvalue = b ''posterValue''\<rparr>
          else \<lparr>ptype = JStr ''url'', pvalue = JStr placeholder\<rparr>)"

text \<open>
  The basic validation of the create route, line 99: it rejects when
  \<^verbatim>\<open>!eventName || !eventDate || !academicYear || !eventLocation\<close>.
\<close>

definition required_present :: "body \<Rightarrow> bool" where
  "required_present b =
     (truthy (b ''eventName'') \<and> truthy (b ''eventDate'') \<and>
      truthy (b ''academicYear'') \<and> truthy (b ''eventLocation''))"

text \<open>The document the create route builds, lines 124 to 137.\<close>

definition new_event :: "body \<Rightarrow> jsval \<Rightarrow> poster \<Rightarrow> event" where
  "new_event b parsedSpeakers p =
     \<lparr>eventName = b ''eventName'',
      eventDate = NewDate (b ''eventDate''),
      eventTime = b ''eventTime'',
      eventLocation = b ''eventLocation'',
      eventLink = b ''eventLink'',
      academicYear = b ''academicYear'',
      description = b ''description'',
      speakers = parsedSpeakers,
      poster = p\<rparr>"

text \<open>The \<^verbatim>\<open>catch\<close> of the create route.\<close>

definition create_catch :: "js_error \<Rightarrow> event response" where
  "create_catch err =
     (case err of
        ValidationError messages \<Rightarrow> reply 400 (join '', '' messages)
      | _ \<Rightarrow> reply 500 ''Server error saving event.'')"

text \<open>\<^verbatim>\<open>POST /api/events\<close>, past the token check, the role gate and the upload.\<close>

definition create_event ::
  "store_env \<Rightarrow> (jsval \<Rightarrow> jsval option) \<Rightarrow> event_request \<Rightarrow> server \<Rightarrow> event response \<times> server" where
  "create_event env JSON_parse req st =
     (let b = body req;
          p = create_poster (req_file req) b
      in
      if \<not> required_present b then
        (reply 400 ''Event name, date, academic year, and location are required.'',
         (case req_file req of
            None \<Rightarrow> st
          | Some u \<Rightarrow> st\<lparr>disk := unlink (path u) (disk st)\<rparr>))
      else
        case create_speakers JSON_parse b of
          None \<Rightarrow> (reply 400 ''Invalid speakers format. Must be a valid JSON array.'', st)
        | Some parsedSpeakers \<Rightarrow>
            let newEvent = new_event b parsedSpeakers p in
            (case save_error env newEvent of
               Some err \<Rightarrow> (create_catch err, st)
             | None \<Rightarrow>
                 (reply_with 201 ''Event saved successfully!'' newEvent,
                  st\<lparr>events := (events st)(save_id env newEvent \<mapsto> newEvent)\<rparr>)))"

text \<open>The \<^verbatim>\<open>catch\<close> of the update route.\<close>

definition update_catch :: "js_error \<Rightarrow> event response" where
  "update_catch err =
     (case err of
        CastError kind \<Rightarrow>
          if kind = ''ObjectId'' then reply 400 ''Invalid Event ID format.''
          else reply 500 ''Server error updating event.''
      | ValidationError messages \<Rightarrow> reply 400 (join '', '' messages)
      | _ \<Rightarrow> reply 500 ''Server error updating event.'')"

text \<open>
  The poster part of the update route, lines 206 to 219: what to set, and the disk
  after the deletions; or the early answer of an unknown poster type; or a throw.
\<close>

datatype poster_update =
    PosterSet "poster option" "string set"
  | PosterRejected
  | PosterThrows js_error

definition update_poster ::
  "string \<Rightarrow> event \<Rightarrow> upload_file option \<Rightarrow> body \<Rightarrow> string set \<Rightarrow> poster_update" where
  "update_poster root existingEvent f b d =
     (case f of
        Some u \<Rightarrow>
          (case deleteOldPoster root (pvalue (poster existingEvent)) d of
             Throws err \<Rightarrow> PosterThrows err
           | Returns d' \<Rightarrow>
               PosterSet (Some \<lparr>ptype = JStr ''upload'', pvalue = JStr (''/uploads/'' @ filename u)\<rparr>) d')
      | None \<Rightarrow>
          if truthy (b ''posterType'') then
            if b ''posterType'' = JStr ''url'' then
              (case (if ptype (poster existingEvent) = JStr ''upload''
                     then deleteOldPoster root (pvalue (poster existingEvent)) d
                     else Returns d) of
                 Throws err \<Rightarrow> PosterThrows err
               | Returns d' \<Rightarrow>
                   PosterSet (Some \<lparr>ptype = JStr ''url'', pvalue = b ''posterValue''\<rparr>) d')
            else PosterRejected
          else PosterSet None d)"

text \<open>
  \<^verbatim>\<open>updateFields\<close> as the update route has built it by line 220: the seven plain
  fields always, the speakers and the poster when they were set.
\<close>

definition update_fields_of :: "body \<Rightarrow> jsval option \<Rightarrow> poster option \<Rightarrow> update_fields" where
  "update_fields_of b newSpeakers newPoster =
     \<lparr>set_eventName = b ''eventName'',
      set_eventDate = NewDate (b ''eventDate''),
      set_eventTime = b ''eventTime'',
      set_eventLocation = b ''eventLocation'',
      set_eventLink = b ''eventLink'',
      set_academicYear = b ''academicYear'',
      set_description = b ''description'',
      set_speakers = newSpeakers,
      set_poster = newPoster\<rparr>"

text \<open>\<^verbatim>\<open>PUT /api/events/:id\<close>, past the token check, the role gate and the upload.\<close>

definition update_event ::
  "string \<Rightarrow> store_env \<Rightarrow> (jsval \<Rightarrow> jsval option) \<Rightarrow> event_request \<Rightarrow> server
     \<Rightarrow> event response \<times> server" where
  "update_event root env JSON_parse req st =
     (let b = body req; ident = params_id req in
      case find_error env ident of
        Some err \<Rightarrow> (update_catch err, st)
      | None \<Rightarrow>
          (case events st ident of
             None \<Rightarrow>
               (reply 404 ''Event not found.'',
                (case req_file req of
                   None \<Rightarrow> st
                 | Some u \<Rightarrow> st\<lparr>disk := unlink (path u) (disk st)\<rparr>))
           | Some existingEvent \<Rightarrow>
               (case update_speakers JSON_parse b of
                  None \<Rightarrow> (reply 400 ''Invalid speakers format for update.'', st)
                | Some newSpeakers \<Rightarrow>
                    (case update_poster root existingEvent (req_file req) b (disk st) of
                       PosterThrows err \<Rightarrow> (update_catch err, st)
                     | PosterRejected \<Rightarrow>
                         (reply 400 ''Invalid poster type specified for update.'', st)
                     | PosterSet newPoster d' \<Rightarrow>
                         let updateFields = update_fields_of b newSpeakers newPoster in
                         (case update_error env ident updateFields of
                            Some err \<Rightarrow> (update_catch err, st\<lparr>disk := d'\<rparr>)
                          | None \<Rightarrow>
                              let updatedEvent = apply_set updateFields existingEvent in
                              (reply_with 200 ''Event updated successfully!'' updatedEvent,
                               st\<lparr>events := (events st)(ident \<mapsto> updatedEvent),
                                  disk := d'\<rparr>))))))"

text \<open>The \<^verbatim>\<open>catch\<close> of the delete route.\<close>

definition delete_catch :: "js_error \<Rightarrow> event response" where
  "delete_catch err =
     (case err of
        CastError kind \<Rightarrow>
          if kind = ''ObjectId'' then reply 400 ''Invalid Event ID format.''
          else reply 500 ''Server error deleting event.''
      | _ \<Rightarrow> reply 500 ''Server error deleting event.'')"

text \<open>\<^verbatim>\<open>DELETE /api/events/:id\<close>, past the token check and the role gate.\<close>

definition delete_event ::
  "string \<Rightarrow> store_env \<Rightarrow> event_request \<Rightarrow> server \<Rightarrow> event response \<times> server" where
  "delete_event root env req st =
     (let ident = params_id req in
      case find_error env ident of
        Some err \<Rightarrow> (delete_catch err, st)
      | None \<Rightarrow>
          (case events st ident of
             None \<Rightarrow> (reply 404 ''Event not found'', st)
           | Some found \<Rightarrow>
               (case (if ptype (poster found) = JStr ''upload'' \<and> truthy (pvalue (poster found))
                      then deleteOldPoster root (pvalue (poster found)) (disk st)
                      else Returns (disk st)) of
                  Throws err \<Rightarrow> (delete_catch err, st)
                | Returns d' \<Rightarrow>
                    (case delete_error env ident of
                       Some err \<Rightarrow> (delete_catch err, st\<lparr>disk := d'\<rparr>)
                     | None \<Rightarrow>
                         (reply 200 ''Event deleted successfully!'',
                          st\<lparr>events := (events st)(ident := None), disk := d'\<rparr>)))))"

section \<open>Example configurations and requests\<close>

definition cfg0 :: config where
  "cfg0 = \<lparr>CLUB_EMAIL = Some ''club@example.org'', ADMIN_SECRET = Some ''s3cret'', JWT_SECRET = Some ''k''\<rparr>"

definition gen_body0 :: body where
  "gen_body0 = (\<lambda>f. if f = ''email'' then JStr ''club@example.org''
                     else if f = ''adminSecret'' then JStr ''s3cret'' else JUndefined)"

definition ver_body0 :: body where
  "ver_body0 = (\<lambda>f. if f = ''email'' then JStr ''club@example.org''
                     else if f = ''otp'' then JStr ''1fa007'' else JUndefined)"

definition admin_req :: request where
  "admin_req = \<lparr>authorization = Some ''Bearer t'',
                user = JObject [(''id'', JStr ''u1''), (''role'', JStr ''admin'')]\<rparr>"

definition member_req :: request where
  "member_req = \<lparr>authorization = Some ''Bearer t'',
                 user = JObject [(''id'', JStr ''u2''), (''role'', JStr ''member'')]\<rparr>"

definition norole_req :: request where
  "norole_req = \<lparr>authorization = Some ''Bearer t'', user = JObject [(''id'', JStr ''u3'')]\<rparr>"

definition env0 :: store_env where
  "env0 = \<lparr>save_error = (\<lambda>e. None), save_id = (\<lambda>e. ''id1''), find_error = (\<lambda>i. None),
           update_error = (\<lambda>i u. None), delete_error = (\<lambda>i. None)\<rparr>"

definition server0 :: server where
  "server0 = \<lparr>events = Map.empty, disk = {}\<rparr>"

definition create_body0 :: body where
  "create_body0 = (\<lambda>f. if f = ''eventName'' then JStr ''Launch''
                        else if f = ''eventDate'' then JStr ''2025-01-10''
                        else if f = ''academicYear'' then JStr ''2024-25''
                        else if f = ''eventLocation'' then JStr ''Hall 1''
                        else JUndefined)"

definition create_req0 :: event_request where
  "create_req0 = \<lparr>params_id = [], body = create_body0, req_file = None\<rparr>"

definition old_event :: event where
  "old_event = \<lparr>eventName = JStr ''Launch'', eventDate = NewDate (JStr ''2025-01-10''),
                 eventTime = JUndefined, eventLocation = JStr ''Hall 1'', eventLink = JUndefined,
                 academicYear = JStr ''2024-25'', description = JUndefined,
                 speakers = JArray [JObject [(''name'', JStr ''Ada''), (''id'', JNum 7)]],
                 poster = \<lparr>ptype = JStr ''upload'', pvalue = JStr ''/uploads/posterFile-1.png''\<rparr>\<rparr>"

definition server1 :: server where
  "server1 = \<lparr>events = [''id1'' \<mapsto> old_event],
              disk = {''/srv/uploads/posterFile-1.png'', ''/srv/uploads/posterFile-2.png''}\<rparr>"

definition rename_body :: body where
  "rename_body = (\<lambda>f. if f = ''eventName'' then JStr ''Relaunch''
                       else if f = ''eventDate'' then JStr ''2025-02-01''
                       else if f = ''academicYear'' then JStr ''2024-25''
                       else if f = ''eventLocation'' then JStr ''Hall 2''
                       else JUndefined)"

definition rename_req :: event_request where
  "rename_req = \<lparr>params_id = ''id1'', body = rename_body, req_file = None\<rparr>"

definition upload_req :: event_request where
  "upload_req = \<lparr>params_id = ''id1'', body = rename_body,
                 req_file = Some (multer_file ''/srv'' ''posterFile-2.png'')\<rparr>"

definition bad_speakers_body :: body where
  "bad_speakers_body = (\<lambda>f. if f = ''speakers'' then JStr ''not json'' else create_body0 f)"

definition bad_speakers_req :: event_request where
  "bad_speakers_req = \<lparr>params_id = [], body = bad_speakers_body,
                       req_file = Some (multer_file ''/srv'' ''posterFile-3.png'')\<rparr>"

definition missing_name_req :: event_request where
  "missing_name_req = \<lparr>params_id = [], body = (\<lambda>f. JUndefined),
                       req_file = Some (multer_file ''/srv'' ''posterFile-3.png'')\<rparr>"

definition server3 :: server where
  "server3 = \<lparr>events = Map.empty, disk = {''/srv/uploads/posterFile-3.png''}\<rparr>"

definition strict_env :: store_env where
  "strict_env = env0\<lparr>save_error :=
     (\<lambda>e. if speakers e = JArray []
          then Some (ValidationError [''At least one speaker with a valid name and ID is required.''])
          else None)\<rparr>"

definition create_upload_req :: event_request where
  "create_upload_req = \<lparr>params_id = [], body = create_body0,
                        req_file = Some (multer_file ''/srv'' ''posterFile-3.png'')\<rparr>"

definition create_url_req :: event_request where
  "create_url_req = \<lparr>params_id = [],
                     body = (\<lambda>f. if f = ''posterType'' then JStr ''url''
                                  else if f = ''posterValue'' then JStr ''https://example.org/p.png''
                                  else create_body0 f),
                     req_file = None\<rparr>"

definition no_speakers_req :: event_request where
  "no_speakers_req = \<lparr>params_id = [], body = create_body0,
                       req_file = Some (multer_file ''/srv'' ''posterFile-3.png'')\<rparr>"

definition linked_event :: event where
  "linked_event = old_event\<lparr>poster := \<lparr>ptype = JStr ''url'', pvalue = JStr ''/uploads/posterFile-1.png''\<rparr>\<rparr>"

definition server2 :: server where
  "server2 = \<lparr>events = [''id1'' \<mapsto> linked_event],
              disk = {''/srv/uploads/posterFile-1.png'', ''/srv/uploads/posterFile-2.png''}\<rparr>"

definition link_req :: event_request where
  "link_req = \<lparr>params_id = [],
               body = (\<lambda>f. if f = ''posterType'' then JStr ''url''
                            else if f = ''posterValue'' then JStr ''/uploads/posterFile-1.png''
                            else create_body0 f),
               req_file = None\<rparr>"

section \<open>Properties of the passcode routes\<close>

lemma generate_otp_accepted:
  assumes "strict_eq_env (b ''email'') (CLUB_EMAIL cfg)"
      and "strict_eq_env (b ''adminSecret'') (ADMIN_SECRET cfg)"
  shows "snd (generate_otp cfg now rnd sendMail b store) =
           store(property_key (CLUB_EMAIL cfg) \<mapsto> \<lparr>otp = new_otp rnd, expires = now + 600000\<rparr>)"
  using assms by (simp add: generate_otp_def Let_def)

lemma verify_otp_rejects:
  assumes "strict_eq_env (b ''email'') (CLUB_EMAIL cfg)"
      and "store (property_key (CLUB_EMAIL cfg)) = None
           \<or> (\<exists>e. store (property_key (CLUB_EMAIL cfg)) = Some e \<and> (b ''otp'' \<noteq> JStr (otp e) \<or> expires e < now))"
  shows "verify_otp cfg now findOne sign b store = (reply 400 ''Invalid or expired OTP.'', store)"
  using assms by (auto simp add: verify_otp_def Let_def split: option.splits)

lemma verify_otp_passes:
  assumes "strict_eq_env (b ''email'') (CLUB_EMAIL cfg)"
      and "store (property_key (CLUB_EMAIL cfg)) = Some e"
      and "b ''otp'' = JStr (otp e)" and "now \<le> expires e"
  shows "verify_otp cfg now findOne sign b store =
           (case findOne of
              Throws err \<Rightarrow> reply 500 ''Server error during login.''
            | Returns found \<Rightarrow>
                (case sign (jwt_payload (if truthy found then found else admin_placeholder)) (JWT_SECRET cfg) of
                   SignError \<Rightarrow> reply 500 ''Server error during login.''
                 | Signed t \<Rightarrow> reply_with 200 ''Logged in successfully!'' t),
            store(property_key (CLUB_EMAIL cfg) := None))"
  using assms by (auto simp add: verify_otp_def Let_def split: option.splits outcome.splits sign_outcome.splits)

text \<open>
  Claim C2. An OTP issued to the admin address (the generate request passed both
  guards; the mail may or may not have gone out) is accepted once: a verify request
  with the issued code, at most ten minutes after the issuance, logs in when the user
  lookup returns and the token is signed, and it leaves no entry behind; every later
  verify request with the same body is answered 400, invalid or expired.
\<close>

theorem otp_verify_once:
  assumes "strict_eq_env (b ''email'') (CLUB_EMAIL cfg)"
      and "strict_eq_env (b ''adminSecret'') (ADMIN_SECRET cfg)"
      and "vb ''email'' = b ''email''"
      and "vb ''otp'' = JStr (new_otp rnd)"
      and "tv \<le> issued + 10 * 60 * 1000"
      and "sign (jwt_payload (if truthy found then found else admin_placeholder)) (JWT_SECRET cfg) = Signed tok"
  shows "\<exists>store2. verify_otp cfg tv (Returns found) sign vb (snd (generate_otp cfg issued rnd sendMail b store))
                = (reply_with 200 ''Logged in successfully!'' tok, store2)
              \<and> store2 (property_key (CLUB_EMAIL cfg)) = None
              \<and> (\<forall>later retryFind retrySign.
                    verify_otp cfg later retryFind retrySign vb store2 = (reply 400 ''Invalid or expired OTP.'', store2))"
proof -
  let ?k = "property_key (CLUB_EMAIL cfg)"
  let ?e = "\<lparr>otp = new_otp rnd, expires = issued + 600000\<rparr>"
  let ?st1 = "snd (generate_otp cfg issued rnd sendMail b store)"
  let ?store2 = "?st1(?k := None)"
  have st1: "?st1 = store(?k \<mapsto> ?e)"
    using assms(1,2) by (rule generate_otp_accepted)
  have vmail: "strict_eq_env (vb ''email'') (CLUB_EMAIL cfg)"
    using assms(1,3) by simp
  have first: "verify_otp cfg tv (Returns found) sign vb ?st1
                 = (reply_with 200 ''Logged in successfully!'' tok, ?store2)"
    using verify_otp_passes [where b = vb and cfg = cfg and store = ?st1 and e = ?e and now = tv
        and findOne = "Returns found" and sign = sign] vmail assms(4,5,6)
    by (simp add: st1)
  have second: "verify_otp cfg later retryFind retrySign vb ?store2 = (reply 400 ''Invalid or expired OTP.'', ?store2)"
    for later retryFind retrySign
    using verify_otp_rejects [where b = vb and cfg = cfg and store = ?store2 and now = later] vmail by simp
  show ?thesis
    using first second by (intro exI [of _ ?store2]) simp
qed

lemma new_otp0: "new_otp (0x1f, 0xa0, 0x07) = ''1fa007''"
  by (simp add: new_otp_def toString_hex_def hex_byte_def hex_digit_def)

theorem otp_verify_once_witness:
  "verify_otp cfg0 1300 (Returns JNull) (\<lambda>p s. Signed ''tok'') ver_body0
       (snd (generate_otp cfg0 1000 (0x1f, 0xa0, 0x07) (\<lambda>m. True) gen_body0 Map.empty))
     = (reply_with 200 ''Logged in successfully!'' ''tok'', Map.empty)
   \<and> verify_otp cfg0 1400 (Returns JNull) (\<lambda>p s. Signed ''tok'') ver_body0 Map.empty
     = (reply 400 ''Invalid or expired OTP.'', Map.empty)"
proof -
  have e: "strict_eq_env (gen_body0 ''email'') (CLUB_EMAIL cfg0)"
    and a: "strict_eq_env (gen_body0 ''adminSecret'') (ADMIN_SECRET cfg0)"
    and v: "ver_body0 ''email'' = gen_body0 ''email''"
    and c: "ver_body0 ''otp'' = JStr (new_otp (0x1f, 0xa0, 0x07))"
    by (simp_all add: strict_eq_env_def cfg0_def gen_body0_def ver_body0_def new_otp0)
  have t: "(1300::int) \<le> 1000 + 10 * 60 * 1000" by simp
  have s: "(\<lambda>p s. Signed ''tok'') (jwt_payload (if truthy JNull then JNull else admin_placeholder)) (JWT_SECRET cfg0)
             = Signed ''tok''" by simp
  from otp_verify_once [OF e a v c t, where sign = "\<lambda>p s. Signed ''tok''" and found = JNull and tok = "''tok''",
      OF s, of "\<lambda>m. True" Map.empty]
  obtain store2 where 1: "verify_otp cfg0 1300 (Returns JNull) (\<lambda>p s. Signed ''tok'') ver_body0
       (snd (generate_otp cfg0 1000 (0x1f, 0xa0, 0x07) (\<lambda>m. True) gen_body0 Map.empty))
     = (reply_with 200 ''Logged in successfully!'' ''tok'', store2)"
    and 2: "store2 (property_key (CLUB_EMAIL cfg0)) = None"
    and 3: "\<And>later retryFind retrySign. verify_otp cfg0 later retryFind retrySign ver_body0 store2 = (reply 400 ''Invalid or expired OTP.'', store2)"
    by blast
  have "snd (generate_otp cfg0 1000 (0x1f, 0xa0, 0x07) (\<lambda>m. True) gen_body0 Map.empty)
          = [''club@example.org'' \<mapsto> \<lparr>otp = ''1fa007'', expires = 601000\<rparr>]"
    unfolding generate_otp_accepted [OF e a] by (simp add: new_otp0 property_key_def cfg0_def)
  then have "store2 = Map.empty"
    using 1 e v
    by (simp add: verify_otp_def Let_def property_key_def cfg0_def ver_body0_def admin_placeholder_def)
  with 1 3 show ?thesis by simp
qed

text \<open>
  Claim C3. Past the email guard, a verify request is answered 400, invalid or
  expired, and changes nothing, when the store has no entry for the address, when the
  submitted code is not the stored one, or when the clock is past the stored expiry.
  After an issuance at time \<open>issued\<close>, every verify request from ten minutes and one
  second on is refused, whatever code it carries.
\<close>

theorem verify_otp_invalid_or_expired:
  "(strict_eq_env (b ''email'') (CLUB_EMAIL cfg) \<and>
      (store (property_key (CLUB_EMAIL cfg)) = None
       \<or> (\<exists>e. store (property_key (CLUB_EMAIL cfg)) = Some e
                \<and> (b ''otp'' \<noteq> JStr (otp e) \<or> now > expires e)))
     \<longrightarrow> verify_otp cfg now findOne sign b store = (reply 400 ''Invalid or expired OTP.'', store))
   \<and> (strict_eq_env (gb ''email'') (CLUB_EMAIL cfg) \<and>
        strict_eq_env (gb ''adminSecret'') (ADMIN_SECRET cfg) \<and>
        issued + 10 * 60 * 1000 + 1000 \<le> t
     \<longrightarrow> verify_otp cfg t findOne sign b (snd (generate_otp cfg issued rnd sendMail gb store))
           = (reply 400 (if strict_eq_env (b ''email'') (CLUB_EMAIL cfg)
                         then ''Invalid or expired OTP.'' else ''Invalid admin email.''),
              snd (generate_otp cfg issued rnd sendMail gb store)))"
proof (intro conjI impI)
  assume "strict_eq_env (b ''email'') (CLUB_EMAIL cfg) \<and>
      (store (property_key (CLUB_EMAIL cfg)) = None
       \<or> (\<exists>e. store (property_key (CLUB_EMAIL cfg)) = Some e
                \<and> (b ''otp'' \<noteq> JStr (otp e) \<or> now > expires e)))"
  then show "verify_otp cfg now findOne sign b store = (reply 400 ''Invalid or expired OTP.'', store)"
    using verify_otp_rejects [where b = b and cfg = cfg and store = store and now = now] by blast
next
  let ?st1 = "snd (generate_otp cfg issued rnd sendMail gb store)"
  assume h: "strict_eq_env (gb ''email'') (CLUB_EMAIL cfg) \<and>
        strict_eq_env (gb ''adminSecret'') (ADMIN_SECRET cfg) \<and>
        issued + 10 * 60 * 1000 + 1000 \<le> t"
  then have st1: "?st1 = store(property_key (CLUB_EMAIL cfg) \<mapsto> \<lparr>otp = new_otp rnd, expires = issued + 600000\<rparr>)"
    by (simp add: generate_otp_accepted)
  show "verify_otp cfg t findOne sign b ?st1
           = (reply 400 (if strict_eq_env (b ''email'') (CLUB_EMAIL cfg)
                         then ''Invalid or expired OTP.'' else ''Invalid admin email.''), ?st1)"
  proof (cases "strict_eq_env (b ''email'') (CLUB_EMAIL cfg)")
    case True
    have "expires \<lparr>otp = new_otp rnd, expires = issued + 600000\<rparr> < t"
      using h by simp
    then show ?thesis
      using True verify_otp_rejects [where b = b and cfg = cfg and store = ?st1 and now = t]
      by (simp add: st1)
  next
    case False
    then show ?thesis by (simp add: verify_otp_def Let_def)
  qed
qed

theorem verify_otp_invalid_or_expired_witness:
  "verify_otp cfg0 5000 (Returns JNull) (\<lambda>p s. Signed ''tok'') ver_body0 Map.empty
     = (reply 400 ''Invalid or expired OTP.'', Map.empty)
   \<and> verify_otp cfg0 602000 (Returns JNull) (\<lambda>p s. Signed ''tok'') ver_body0
        (snd (generate_otp cfg0 1000 (0x1f, 0xa0, 0x07) (\<lambda>m. True) gen_body0 Map.empty))
     = (reply 400 ''Invalid or expired OTP.'',
        snd (generate_otp cfg0 1000 (0x1f, 0xa0, 0x07) (\<lambda>m. True) gen_body0 Map.empty))"
proof -
  have e: "strict_eq_env (gen_body0 ''email'') (CLUB_EMAIL cfg0)"
    and a: "strict_eq_env (gen_body0 ''adminSecret'') (ADMIN_SECRET cfg0)"
    and v: "strict_eq_env (ver_body0 ''email'') (CLUB_EMAIL cfg0)"
    by (simp_all add: strict_eq_env_def cfg0_def gen_body0_def ver_body0_def)
  have t: "(1000::int) + 10 * 60 * 1000 + 1000 \<le> 602000" by simp
  show ?thesis
    using verify_otp_invalid_or_expired [where b = ver_body0 and cfg = cfg0 and store = Map.empty
        and now = 5000 and findOne = "Returns JNull" and sign = "\<lambda>p s. Signed ''tok''"
        and gb = gen_body0 and issued = 1000 and t = 602000 and rnd = "(0x1f, 0xa0, 0x07)"
        and sendMail = "\<lambda>m. True"] e a v t
    by simp
qed

text \<open>
  Claim C4. The generate route answers 400 to a foreign email and 401 to a wrong
  secret, storing nothing in either case. With both right it stores the new entry and
  hands the mail to the transporter; the answer is 200 or 500 as the delivery went,
  and the entry is stored either way, so that a verify request with that code within
  ten minutes still logs in.
\<close>

theorem generate_otp_responses:
  "(\<not> strict_eq_env (b ''email'') (CLUB_EMAIL cfg)
      \<longrightarrow> generate_otp cfg now rnd sendMail b store = (reply 400 ''Invalid admin email.'', store))
   \<and> (strict_eq_env (b ''email'') (CLUB_EMAIL cfg) \<and>
        \<not> strict_eq_env (b ''adminSecret'') (ADMIN_SECRET cfg)
      \<longrightarrow> generate_otp cfg now rnd sendMail b store = (reply 401 ''Invalid Admin Secret Key.'', store))
   \<and> (strict_eq_env (b ''email'') (CLUB_EMAIL cfg) \<and>
        strict_eq_env (b ''adminSecret'') (ADMIN_SECRET cfg)
      \<longrightarrow> generate_otp cfg now rnd sendMail b store =
            (if sendMail \<lparr>mail_from = CLUB_EMAIL cfg, mail_to = b ''email'', mail_otp = new_otp rnd\<rparr>
             then reply 200 ''OTP sent to admin email.''
             else reply 500 ''Failed to send OTP. Please check server logs.'',
             store(property_key (CLUB_EMAIL cfg) \<mapsto> \<lparr>otp = new_otp rnd, expires = now + 600000\<rparr>))
          \<and> (vb ''email'' = b ''email'' \<and> vb ''otp'' = JStr (new_otp rnd) \<and> later \<le> now + 600000 \<and>
               sign (jwt_payload (if truthy found then found else admin_placeholder)) (JWT_SECRET cfg)
                 = Signed tok
             \<longrightarrow> fst (verify_otp cfg later (Returns found) sign vb
                        (snd (generate_otp cfg now rnd sendMail b store)))
                   = reply_with 200 ''Logged in successfully!'' tok))"
proof (intro conjI impI)
  assume "\<not> strict_eq_env (b ''email'') (CLUB_EMAIL cfg)"
  then show "generate_otp cfg now rnd sendMail b store = (reply 400 ''Invalid admin email.'', store)"
    by (simp add: generate_otp_def Let_def)
next
  assume "strict_eq_env (b ''email'') (CLUB_EMAIL cfg) \<and>
        \<not> strict_eq_env (b ''adminSecret'') (ADMIN_SECRET cfg)"
  then show "generate_otp cfg now rnd sendMail b store = (reply 401 ''Invalid Admin Secret Key.'', store)"
    by (simp add: generate_otp_def Let_def)
next
  assume "strict_eq_env (b ''email'') (CLUB_EMAIL cfg) \<and>
        strict_eq_env (b ''adminSecret'') (ADMIN_SECRET cfg)"
  then show "generate_otp cfg now rnd sendMail b store =
            (if sendMail \<lparr>mail_from = CLUB_EMAIL cfg, mail_to = b ''email'', mail_otp = new_otp rnd\<rparr>
             then reply 200 ''OTP sent to admin email.''
             else reply 500 ''Failed to send OTP. Please check server logs.'',
             store(property_key (CLUB_EMAIL cfg) \<mapsto> \<lparr>otp = new_otp rnd, expires = now + 600000\<rparr>))"
    by (simp add: generate_otp_def sendOtpEmail_def Let_def)
next
  assume ok: "strict_eq_env (b ''email'') (CLUB_EMAIL cfg) \<and>
        strict_eq_env (b ''adminSecret'') (ADMIN_SECRET cfg)"
    and v: "vb ''email'' = b ''email'' \<and> vb ''otp'' = JStr (new_otp rnd) \<and> later \<le> now + 600000 \<and>
               sign (jwt_payload (if truthy found then found else admin_placeholder)) (JWT_SECRET cfg)
                 = Signed tok"
  let ?e = "\<lparr>otp = new_otp rnd, expires = now + 600000\<rparr>"
  let ?st = "snd (generate_otp cfg now rnd sendMail b store)"
  have st: "?st = store(property_key (CLUB_EMAIL cfg) \<mapsto> ?e)"
    using ok by (simp add: generate_otp_accepted)
  have "strict_eq_env (vb ''email'') (CLUB_EMAIL cfg)"
    using ok v by simp
  then show "fst (verify_otp cfg later (Returns found) sign vb ?st)
               = reply_with 200 ''Logged in successfully!'' tok"
    using verify_otp_passes [where b = vb and cfg = cfg and store = ?st and e = ?e and now = later
        and findOne = "Returns found" and sign = sign] v
    by (simp add: st)
qed

theorem generate_otp_responses_witness:
  "generate_otp cfg0 1000 (0x1f, 0xa0, 0x07) (\<lambda>m. False) (\<lambda>f. JUndefined) Map.empty
     = (reply 400 ''Invalid admin email.'', Map.empty)
   \<and> generate_otp cfg0 1000 (0x1f, 0xa0, 0x07) (\<lambda>m. False)
        (\<lambda>f. if f = ''email'' then JStr ''club@example.org'' else JUndefined) Map.empty
     = (reply 401 ''Invalid Admin Secret Key.'', Map.empty)
   \<and> generate_otp cfg0 1000 (0x1f, 0xa0, 0x07) (\<lambda>m. False) gen_body0 Map.empty
     = (reply 500 ''Failed to send OTP. Please check server logs.'',
        [''club@example.org'' \<mapsto> \<lparr>otp = ''1fa007'', expires = 601000\<rparr>])
   \<and> fst (verify_otp cfg0 2000 (Returns JNull) (\<lambda>p s. Signed ''tok'') ver_body0
          (snd (generate_otp cfg0 1000 (0x1f, 0xa0, 0x07) (\<lambda>m. False) gen_body0 Map.empty)))
     = reply_with 200 ''Logged in successfully!'' ''tok''"
proof -
  let ?b1 = "\<lambda>f::string. JUndefined"
  let ?b2 = "\<lambda>f. if f = ''email'' then JStr ''club@example.org'' else JUndefined"
  let ?sign = "\<lambda>(p::jsval) (s::string option). Signed ''tok''"
  have 1: "\<not> strict_eq_env (?b1 ''email'') (CLUB_EMAIL cfg0)"
    by (simp add: strict_eq_env_def cfg0_def)
  have 2: "strict_eq_env (?b2 ''email'') (CLUB_EMAIL cfg0) \<and>
           \<not> strict_eq_env (?b2 ''adminSecret'') (ADMIN_SECRET cfg0)"
    by (simp add: strict_eq_env_def cfg0_def)
  have 3: "strict_eq_env (gen_body0 ''email'') (CLUB_EMAIL cfg0) \<and>
           strict_eq_env (gen_body0 ''adminSecret'') (ADMIN_SECRET cfg0)"
    by (simp add: strict_eq_env_def cfg0_def gen_body0_def)
  have 4: "ver_body0 ''email'' = gen_body0 ''email'' \<and>
           ver_body0 ''otp'' = JStr (new_otp (0x1f, 0xa0, 0x07)) \<and> (2000::int) \<le> 1000 + 600000 \<and>
           ?sign (jwt_payload (if truthy JNull then JNull else admin_placeholder)) (JWT_SECRET cfg0)
             = Signed ''tok''"
    by (simp add: gen_body0_def ver_body0_def new_otp0)
  have a: "generate_otp cfg0 1000 (0x1f, 0xa0, 0x07) (\<lambda>m. False) ?b1 Map.empty
             = (reply 400 ''Invalid admin email.'', Map.empty)"
    using generate_otp_responses [where b = ?b1 and cfg = cfg0] 1 by blast
  have b: "generate_otp cfg0 1000 (0x1f, 0xa0, 0x07) (\<lambda>m. False) ?b2 Map.empty
             = (reply 401 ''Invalid Admin Secret Key.'', Map.empty)"
    using generate_otp_responses [where b = ?b2 and cfg = cfg0] 2 by blast
  have c: "generate_otp cfg0 1000 (0x1f, 0xa0, 0x07) (\<lambda>m. False) gen_body0 Map.empty
     = (reply 500 ''Failed to send OTP. Please check server logs.'',
        [''club@example.org'' \<mapsto> \<lparr>otp = ''1fa007'', expires = 601000\<rparr>])"
    using generate_otp_responses [where b = gen_body0 and cfg = cfg0 and now = 1000
        and rnd = "(0x1f, 0xa0, 0x07)" and sendMail = "\<lambda>m. False" and store = Map.empty] 3
    by (simp add: new_otp0 property_key_def cfg0_def)
  have d: "fst (verify_otp cfg0 2000 (Returns JNull) ?sign ver_body0
          (snd (generate_otp cfg0 1000 (0x1f, 0xa0, 0x07) (\<lambda>m. False) gen_body0 Map.empty)))
     = reply_with 200 ''Logged in successfully!'' ''tok''"
    using generate_otp_responses [where b = gen_body0 and cfg = cfg0 and now = 1000
        and rnd = "(0x1f, 0xa0, 0x07)" and sendMail = "\<lambda>m. False" and store = Map.empty
        and vb = ver_body0 and later = 2000 and sign = ?sign and found = JNull and tok = "''tok''"] 3 4
    by blast
  show ?thesis using a b c d by simp
qed

lemma generate_otp_dom:
  "dom (snd (generate_otp cfg now rnd sendMail b store)) \<subseteq> dom store \<union> {property_key (CLUB_EMAIL cfg)}"
  by (auto simp add: generate_otp_def Let_def)

lemma verify_otp_dom:
  "dom (snd (verify_otp cfg now findOne sign b store)) \<subseteq> dom store"
  by (auto simp add: verify_otp_def Let_def
           split: if_splits option.splits outcome.splits sign_outcome.splits)

lemma auth_step_dom:
  "dom (auth_step cfg r store) \<subseteq> dom store \<union> {property_key (CLUB_EMAIL cfg)}"
proof (cases r)
  case (GenerateOtp now rnd sendMail b)
  then show ?thesis using generate_otp_dom [of cfg now rnd sendMail b store] by simp
next
  case (VerifyOtp now findOne sign b)
  then show ?thesis using verify_otp_dom [of cfg now findOne sign b store] by auto
qed

lemma auth_run_dom:
  "dom (auth_run cfg rs store) \<subseteq> dom store \<union> {property_key (CLUB_EMAIL cfg)}"
proof (induction rs arbitrary: store)
  case Nil
  then show ?case by auto
next
  case (Cons r rs)
  have "dom (auth_run cfg rs (auth_step cfg r store))
          \<subseteq> dom (auth_step cfg r store) \<union> {property_key (CLUB_EMAIL cfg)}"
    by (rule Cons.IH)
  also have "\<dots> \<subseteq> dom store \<union> {property_key (CLUB_EMAIL cfg)}"
    using auth_step_dom [of cfg r store] by auto
  finally show ?case by simp
qed

lemma verify_otp_200:
  assumes "status (fst (verify_otp cfg now findOne sign b store)) = 200"
  shows "snd (verify_otp cfg now findOne sign b store) = store(property_key (CLUB_EMAIL cfg) := None)"
  using assms
  by (auto simp add: verify_otp_def Let_def reply_def reply_with_def
           split: if_splits option.splits outcome.splits sign_outcome.splits)

text \<open>
  Claim C5. From an empty store, after any sequence of generate and verify requests
  the store holds entries for the admin address only, hence at most one. No request
  adds a key other than that address; an accepted issuance replaces whatever entry the
  address had; a verification answered 200 has removed it.
\<close>

theorem otp_store_one_entry_per_email:
  "dom (auth_run cfg rs Map.empty) \<subseteq> {property_key (CLUB_EMAIL cfg)}
   \<and> card (dom (auth_run cfg rs Map.empty)) \<le> 1
   \<and> dom (auth_step cfg r store) \<subseteq> dom store \<union> {property_key (CLUB_EMAIL cfg)}
   \<and> (strict_eq_env (b ''email'') (CLUB_EMAIL cfg) \<and>
        strict_eq_env (b ''adminSecret'') (ADMIN_SECRET cfg)
      \<longrightarrow> snd (generate_otp cfg now rnd sendMail b store) =
            store(property_key (CLUB_EMAIL cfg) \<mapsto> \<lparr>otp = new_otp rnd, expires = now + 600000\<rparr>))
   \<and> (status (fst (verify_otp cfg now findOne sign b store)) = 200
      \<longrightarrow> snd (verify_otp cfg now findOne sign b store) = store(property_key (CLUB_EMAIL cfg) := None))"
proof -
  have d: "dom (auth_run cfg rs Map.empty) \<subseteq> {property_key (CLUB_EMAIL cfg)}"
    using auth_run_dom [of cfg rs Map.empty] by simp
  then have "card (dom (auth_run cfg rs Map.empty)) \<le> card {property_key (CLUB_EMAIL cfg)}"
    by (intro card_mono) simp_all
  then have c: "card (dom (auth_run cfg rs Map.empty)) \<le> 1" by simp
  show ?thesis
    using d c auth_step_dom [of cfg r store] generate_otp_accepted [of b cfg now rnd sendMail store]
      verify_otp_200 [of cfg now findOne sign b store]
    by blast
qed

theorem otp_store_one_entry_per_email_witness:
  "auth_run cfg0
     [GenerateOtp 1000 (0x00, 0x00, 0x01) (\<lambda>m. True) gen_body0,
      GenerateOtp 1500 (0x1f, 0xa0, 0x07) (\<lambda>m. True) gen_body0] Map.empty
     = [''club@example.org'' \<mapsto> \<lparr>otp = ''1fa007'', expires = 601500\<rparr>]
   \<and> auth_run cfg0
     [GenerateOtp 1000 (0x00, 0x00, 0x01) (\<lambda>m. True) gen_body0,
      GenerateOtp 1500 (0x1f, 0xa0, 0x07) (\<lambda>m. True) gen_body0,
      VerifyOtp 2000 (Returns JNull) (\<lambda>p s. Signed ''tok'') ver_body0] Map.empty
     = Map.empty"
proof -
  let ?st1 = "[''club@example.org'' \<mapsto> \<lparr>otp = ''000001'', expires = 601000\<rparr>]"
  let ?st2 = "[''club@example.org'' \<mapsto> \<lparr>otp = ''1fa007'', expires = 601500\<rparr>]"
  let ?sign = "\<lambda>(p::jsval) (s::string option). Signed ''tok''"
  have ok: "strict_eq_env (gen_body0 ''email'') (CLUB_EMAIL cfg0) \<and>
           strict_eq_env (gen_body0 ''adminSecret'') (ADMIN_SECRET cfg0)"
    by (simp add: strict_eq_env_def cfg0_def gen_body0_def)
  have o1: "new_otp (0x00, 0x00, 0x01) = ''000001''"
    by (simp add: new_otp_def toString_hex_def hex_byte_def hex_digit_def)
  have g1: "snd (generate_otp cfg0 1000 (0x00, 0x00, 0x01) (\<lambda>m. True) gen_body0 Map.empty) = ?st1"
    using otp_store_one_entry_per_email [where b = gen_body0 and cfg = cfg0 and now = 1000
        and rnd = "(0x00, 0x00, 0x01)" and sendMail = "\<lambda>m. True" and store = Map.empty] ok
    by (simp add: o1 property_key_def cfg0_def)
  have g2: "snd (generate_otp cfg0 1500 (0x1f, 0xa0, 0x07) (\<lambda>m. True) gen_body0 ?st1) = ?st2"
    using otp_store_one_entry_per_email [where b = gen_body0 and cfg = cfg0 and now = 1500
        and rnd = "(0x1f, 0xa0, 0x07)" and sendMail = "\<lambda>m. True" and store = ?st1] ok
    by (simp add: new_otp0 property_key_def cfg0_def)
  have v: "verify_otp cfg0 2000 (Returns JNull) ?sign ver_body0 ?st2
             = (reply_with 200 ''Logged in successfully!'' ''tok'', Map.empty)"
    by (simp add: verify_otp_def Let_def strict_eq_env_def property_key_def cfg0_def ver_body0_def)
  have "status (fst (verify_otp cfg0 2000 (Returns JNull) ?sign ver_body0 ?st2)) = 200"
    by (simp add: v reply_with_def)
  then have v3: "snd (verify_otp cfg0 2000 (Returns JNull) ?sign ver_body0 ?st2) = Map.empty"
    using otp_store_one_entry_per_email [where b = ver_body0 and cfg = cfg0 and now = 2000
        and findOne = "Returns JNull" and sign = ?sign and store = ?st2]
    by (simp add: property_key_def cfg0_def)
  show ?thesis by (simp add: g1 g2 v3)
qed

text \<open>
  Claim C10. Once a verify request has passed the OTP check, the entry is gone
  whatever the user lookup and the signing do afterwards. When the lookup throws, or
  the signing reports an error, the answer is 500 and the entry is consumed all the
  same: a retry with the same correct code is answered 400, invalid or expired.
\<close>

theorem verify_otp_consumes_before_login:
  assumes "strict_eq_env (b ''email'') (CLUB_EMAIL cfg)"
      and "store (property_key (CLUB_EMAIL cfg)) = Some e"
      and "b ''otp'' = JStr (otp e)"
      and "now \<le> expires e"
  shows "snd (verify_otp cfg now findOne sign b store) = store(property_key (CLUB_EMAIL cfg) := None)
       \<and> verify_otp cfg now (Throws err) sign b store
           = (reply 500 ''Server error during login.'', store(property_key (CLUB_EMAIL cfg) := None))
       \<and> verify_otp cfg now (Returns found) (\<lambda>p s. SignError) b store
           = (reply 500 ''Server error during login.'', store(property_key (CLUB_EMAIL cfg) := None))
       \<and> verify_otp cfg later retryFind retrySign b (snd (verify_otp cfg now findOne sign b store))
           = (reply 400 ''Invalid or expired OTP.'', store(property_key (CLUB_EMAIL cfg) := None))"
proof -
  let ?st = "store(property_key (CLUB_EMAIL cfg) := None)"
  have p: "verify_otp cfg now f g b store =
           (case f of
              Throws err \<Rightarrow> reply 500 ''Server error during login.''
            | Returns found \<Rightarrow>
                (case g (jwt_payload (if truthy found then found else admin_placeholder)) (JWT_SECRET cfg) of
                   SignError \<Rightarrow> reply 500 ''Server error during login.''
                 | Signed t \<Rightarrow> reply_with 200 ''Logged in successfully!'' t), ?st)" for f g
    using assms by (rule verify_otp_passes)
  have r: "verify_otp cfg later retryFind retrySign b ?st = (reply 400 ''Invalid or expired OTP.'', ?st)"
    using verify_otp_rejects [where b = b and cfg = cfg and store = ?st and now = later] assms(1)
    by simp
  show ?thesis
    by (simp add: p r)
qed

theorem verify_otp_consumes_before_login_witness:
  "verify_otp cfg0 2000 (Throws OtherError) (\<lambda>p s. Signed ''tok'') ver_body0
       [''club@example.org'' \<mapsto> \<lparr>otp = ''1fa007'', expires = 601000\<rparr>]
     = (reply 500 ''Server error during login.'', Map.empty)
   \<and> verify_otp cfg0 2500 (Returns JNull) (\<lambda>p s. Signed ''tok'') ver_body0
       (snd (verify_otp cfg0 2000 (Throws OtherError) (\<lambda>p s. Signed ''tok'') ver_body0
          [''club@example.org'' \<mapsto> \<lparr>otp = ''1fa007'', expires = 601000\<rparr>]))
     = (reply 400 ''Invalid or expired OTP.'', Map.empty)"
proof -
  let ?st = "[''club@example.org'' \<mapsto> \<lparr>otp = ''1fa007'', expires = 601000\<rparr>]"
  have 1: "strict_eq_env (ver_body0 ''email'') (CLUB_EMAIL cfg0)"
    and 2: "?st (property_key (CLUB_EMAIL cfg0)) = Some \<lparr>otp = ''1fa007'', expires = 601000\<rparr>"
    and 3: "ver_body0 ''otp'' = JStr (otp \<lparr>otp = ''1fa007'', expires = 601000\<rparr>)"
    and 4: "(2000::int) \<le> expires \<lparr>otp = ''1fa007'', expires = 601000\<rparr>"
    by (simp_all add: strict_eq_env_def property_key_def cfg0_def ver_body0_def)
  have 5: "?st(property_key (CLUB_EMAIL cfg0) := None) = Map.empty"
    by (simp add: property_key_def cfg0_def)
  show ?thesis
    using 1 2 3 4 verify_otp_consumes_before_login [where b = ver_body0 and cfg = cfg0 and store = ?st
        and e = "\<lparr>otp = ''1fa007'', expires = 601000\<rparr>" and now = 2000
        and findOne = "Throws OtherError"
        and sign = "\<lambda>p s. Signed ''tok''" and err = OtherError and later = 2500
        and retryFind = "Returns JNull" and retrySign = "\<lambda>p s. Signed ''tok''", unfolded 5]
    by blast
qed

section \<open>Properties of the role gate\<close>

lemma array_includes_iff: "array_includes roles v \<longleftrightarrow> (\<exists>s. v = JStr s \<and> s \<in> set roles)"
  by (cases v) simp_all

text \<open>
  Claim C9. The role gate answers 403, no user or role information, when the request
  carries no claim or the claim no role; it answers 403, role not allowed, when the
  role is not one of the allowed strings; otherwise it hands the request on. It
  hands on the very request it was given, and its answer depends on nothing but the
  allowed roles and the claim. A claim with role \<^verbatim>\<open>admin\<close> passes the gate for
  \<^verbatim>\<open>['admin']\<close>.
\<close>

theorem authorizeRoles_gate:
  "(\<not> truthy (user req) \<or> \<not> truthy (get_prop (user req) ''role'')
      \<longrightarrow> authorizeRoles roles req
            = Inl (reply 403 ''Access denied: No user or role information found in token.''))
   \<and> (truthy (user req) \<and> truthy (get_prop (user req) ''role'') \<and>
        \<not> (\<exists>s. get_prop (user req) ''role'' = JStr s \<and> s \<in> set roles)
      \<longrightarrow> authorizeRoles roles req
            = Inl (reply 403 (''Access denied: Requires one of the following roles: '' @ join '', '' roles)))
   \<and> (truthy (user req) \<and> truthy (get_prop (user req) ''role'') \<and>
        (\<exists>s. get_prop (user req) ''role'' = JStr s \<and> s \<in> set roles)
      \<longrightarrow> authorizeRoles roles req = Inr req)
   \<and> (get_prop (user req) ''role'' = JStr ''admin'' \<longrightarrow> authorizeRoles [''admin''] req = Inr req)
   \<and> (\<forall>r. authorizeRoles roles req = Inr r \<longrightarrow> r = req)
   \<and> (user req' = user req
      \<longrightarrow> map_sum id (\<lambda>r. ()) (authorizeRoles roles req') = map_sum id (\<lambda>r. ()) (authorizeRoles roles req))"
proof -
  have admin: "authorizeRoles [''admin''] req = Inr req"
    if "get_prop (user req) ''role'' = JStr ''admin''"
  proof -
    have "truthy (user req)"
      using that by (cases "user req") simp_all
    then show ?thesis
      using that by (simp add: authorizeRoles_def)
  qed
  show ?thesis
    using admin by (auto simp add: authorizeRoles_def array_includes_iff)
qed

theorem authorizeRoles_gate_witness:
  "authorizeRoles [''admin''] admin_req = Inr admin_req
   \<and> authorizeRoles [''admin''] member_req
       = Inl (reply 403 ''Access denied: Requires one of the following roles: admin'')
   \<and> authorizeRoles [''admin''] norole_req
       = Inl (reply 403 ''Access denied: No user or role information found in token.'')"
proof -
  have a: "get_prop (user admin_req) ''role'' = JStr ''admin''"
    by (simp add: admin_req_def)
  have m: "truthy (user member_req) \<and> truthy (get_prop (user member_req) ''role'') \<and>
        \<not> (\<exists>s. get_prop (user member_req) ''role'' = JStr s \<and> s \<in> set [''admin''])"
    by (simp add: member_req_def)
  have n: "\<not> truthy (user norole_req) \<or> \<not> truthy (get_prop (user norole_req) ''role'')"
    by (simp add: norole_req_def)
  have 1: "authorizeRoles [''admin''] admin_req = Inr admin_req"
    using authorizeRoles_gate [where req = admin_req] a by blast
  have 2: "authorizeRoles [''admin''] member_req
      = Inl (reply 403 (''Access denied: Requires one of the following roles: '' @ join '', '' [''admin'']))"
    using authorizeRoles_gate [where req = member_req and roles = "[''admin'']"] m by blast
  have 3: "authorizeRoles [''admin''] norole_req
       = Inl (reply 403 ''Access denied: No user or role information found in token.'')"
    using authorizeRoles_gate [where req = norole_req and roles = "[''admin'']"] n by blast
  show ?thesis using 1 2 3 by simp
qed

text \<open>
  The identity a login signs into the token when no admin document is found passes
  the gate of the admin routes.
\<close>

lemma placeholder_identity_passes:
  "authorizeRoles [''admin''] (req\<lparr>user := get_prop (jwt_payload admin_placeholder) ''user''\<rparr>)
     = Inr (req\<lparr>user := get_prop (jwt_payload admin_placeholder) ''user''\<rparr>)"
  by (simp add: authorizeRoles_def jwt_payload_def admin_placeholder_def)

section \<open>Properties of the event routes\<close>

lemma create_event_201:
  assumes "status (fst (create_event env JSON_parse req st)) = 201"
  shows "\<exists>sp. create_event env JSON_parse req st =
             (let e = new_event (body req) sp (create_poster (req_file req) (body req))
              in (reply_with 201 ''Event saved successfully!'' e,
                  st\<lparr>events := (events st)(save_id env e \<mapsto> e)\<rparr>))"
  using assms
  by (auto simp add: create_event_def required_present_def Let_def reply_def reply_with_def create_catch_def
           split: if_splits option.splits js_error.splits)

text \<open>
  Claim C6. When the create route saves an event (status 201), the document it has
  stored carries the poster chosen in this order: with an uploaded file, type
  \<^verbatim>\<open>upload\<close> and the path \<^verbatim>\<open>/uploads/\<close> followed by the generated file name; else,
  with \<^verbatim>\<open>posterType\<close> equal to \<^verbatim>\<open>url\<close> and a truthy \<^verbatim>\<open>posterValue\<close>, type
  \<^verbatim>\<open>url\<close> and that value; else type \<^verbatim>\<open>url\<close> and the placeholder address. Without
  a file and without a \<^verbatim>\<open>posterType\<close> it is the placeholder.
\<close>

theorem create_event_poster_precedence:
  assumes "status (fst (create_event env JSON_parse req st)) = 201"
  shows "\<exists>e. payload (fst (create_event env JSON_parse req st)) = Some e
           \<and> events (snd (create_event env JSON_parse req st)) (save_id env e) = Some e
           \<and> poster e =
               (case req_file req of
                  Some u \<Rightarrow> \<lparr>ptype = JStr ''upload'', pvalue = JStr (''/uploads/'' @ filename u)\<rparr>
                | None \<Rightarrow>
                    if body req ''posterType'' = JStr ''url'' \<and> truthy (body req ''posterValue'')
                    then \<lparr>ptype = JStr ''url'', pvalue = body req ''posterValue''\<rparr>
                    else \<lparr>ptype = JStr ''url'',
                          pvalue = JStr ''https://via.placeholder.com/300x200?text=No+Poster''\<rparr>)
           \<and> (req_file req = None \<and> body req ''posterType'' = JUndefined
                \<longrightarrow> poster e = \<lparr>ptype = JStr ''url'',
                                 pvalue = JStr ''https://via.placeholder.com/300x200?text=No+Poster''\<rparr>)"
proof -
  from create_event_201 [OF assms] obtain sp where
    r: "create_event env JSON_parse req st =
             (let e = new_event (body req) sp (create_poster (req_file req) (body req))
              in (reply_with 201 ''Event saved successfully!'' e,
                  st\<lparr>events := (events st)(save_id env e \<mapsto> e)\<rparr>))"
    by blast
  show ?thesis
    unfolding r
    by (cases "req_file req")
       (simp_all add: Let_def reply_with_def create_poster_def placeholder_def new_event_def)
qed

lemma create_examples_201:
  "status (fst (create_event env0 (\<lambda>v. None) create_req0 server0)) = 201"
  "status (fst (create_event env0 (\<lambda>v. None) create_upload_req server0)) = 201"
  "status (fst (create_event env0 (\<lambda>v. None) create_url_req server0)) = 201"
  by (simp_all add: create_event_def required_present_def create_req0_def create_upload_req_def
        create_url_req_def create_body0_def env0_def Let_def create_speakers_def reply_with_def)

theorem create_event_poster_precedence_witness:
  "(\<exists>e. events (snd (create_event env0 (\<lambda>v. None) create_req0 server0)) ''id1'' = Some e
       \<and> poster e = \<lparr>ptype = JStr ''url'',
                       pvalue = JStr ''https://via.placeholder.com/300x200?text=No+Poster''\<rparr>)
   \<and> (\<exists>e. events (snd (create_event env0 (\<lambda>v. None) create_upload_req server0)) ''id1'' = Some e
       \<and> poster e = \<lparr>ptype = JStr ''upload'', pvalue = JStr ''/uploads/posterFile-3.png''\<rparr>)
   \<and> (\<exists>e. events (snd (create_event env0 (\<lambda>v. None) create_url_req server0)) ''id1'' = Some e
       \<and> poster e = \<lparr>ptype = JStr ''url'', pvalue = JStr ''https://example.org/p.png''\<rparr>)"
proof -
  have i: "save_id env0 e = ''id1''" for e
    by (simp add: env0_def)
  have f: "req_file create_req0 = None \<and> body create_req0 ''posterType'' = JUndefined"
    by (simp add: create_req0_def create_body0_def)
  have a: "\<exists>e. events (snd (create_event env0 (\<lambda>v. None) create_req0 server0)) ''id1'' = Some e
       \<and> poster e = \<lparr>ptype = JStr ''url'',
                       pvalue = JStr ''https://via.placeholder.com/300x200?text=No+Poster''\<rparr>"
    using create_event_poster_precedence [OF create_examples_201(1)] f by (auto simp add: i)
  have b: "\<exists>e. events (snd (create_event env0 (\<lambda>v. None) create_upload_req server0)) ''id1'' = Some e
       \<and> poster e = \<lparr>ptype = JStr ''upload'', pvalue = JStr ''/uploads/posterFile-3.png''\<rparr>"
    using create_event_poster_precedence [OF create_examples_201(2)]
    by (auto simp add: i create_upload_req_def multer_file_def)
  have c: "\<exists>e. events (snd (create_event env0 (\<lambda>v. None) create_url_req server0)) ''id1'' = Some e
       \<and> poster e = \<lparr>ptype = JStr ''url'', pvalue = JStr ''https://example.org/p.png''\<rparr>"
    using create_event_poster_precedence [OF create_examples_201(3)]
    by (auto simp add: i create_url_req_def)
  show ?thesis using a b c by blast
qed

lemma update_poster_untouched:
  assumes "f = None" and "\<not> truthy (b ''posterType'')"
  shows "update_poster root e f b d = PosterSet None d"
  using assms by (simp add: update_poster_def)

lemma update_event_found:
  assumes "find_error env (params_id req) = None"
      and "events st (params_id req) = Some e"
      and "update_speakers JSON_parse (body req) = Some sp"
      and "update_poster root e (req_file req) (body req) (disk st) = PosterSet np d"
  shows "update_event root env JSON_parse req st =
           (let u = update_fields_of (body req) sp np
            in case update_error env (params_id req) u of
                 Some err \<Rightarrow> (update_catch err, st\<lparr>disk := d\<rparr>)
               | None \<Rightarrow>
                   (reply_with 200 ''Event updated successfully!'' (apply_set u e),
                    st\<lparr>events := (events st)(params_id req \<mapsto> apply_set u e), disk := d\<rparr>))"
  using assms by (simp add: update_event_def Let_def split: option.splits)

lemma update_catch_not_200: "status (update_catch err) \<noteq> 200"
  by (simp add: update_catch_def reply_def split: js_error.splits)

text \<open>
  Claim C7. An update request with neither a file nor a (truthy) \<^verbatim>\<open>posterType\<close>
  leaves the poster of the stored event as it was, and the disk as it was, whatever
  else it changes; when it succeeds, the name and the academic year are those of the
  request where it sends them, and the date is the one built from the request.
\<close>

theorem update_event_keeps_poster:
  assumes "req_file req = None"
      and "\<not> truthy (body req ''posterType'')"
      and "events st (params_id req) = Some e"
  shows "(\<exists>e'. events (snd (update_event root env JSON_parse req st)) (params_id req) = Some e'
              \<and> poster e' = poster e
              \<and> (status (fst (update_event root env JSON_parse req st)) = 200
                   \<longrightarrow> eventName e' =
                         (if body req ''eventName'' = JUndefined then eventName e
                          else body req ''eventName'')
                     \<and> eventDate e' = NewDate (body req ''eventDate'')
                     \<and> eventLocation e' = eventLocation e
                     \<and> academicYear e' =
                         (if body req ''academicYear'' = JUndefined then academicYear e
                          else body req ''academicYear'')))
         \<and> disk (snd (update_event root env JSON_parse req st)) = disk st"
  using assms
  by (auto simp add: update_event_def Let_def update_poster_untouched apply_set_def
        update_fields_of_def update_catch_not_200 reply_def
           split: option.splits)

lemma rename0:
  "update_event ''/srv'' env0 (\<lambda>v. None) rename_req server1 =
     (let e = old_event\<lparr>eventName := JStr ''Relaunch'', eventDate := NewDate (JStr ''2025-02-01'')\<rparr>
      in (reply_with 200 ''Event updated successfully!'' e, server1\<lparr>events := [''id1'' \<mapsto> e]\<rparr>))"
  by (simp add: update_event_def rename_req_def rename_body_def env0_def server1_def Let_def
        update_speakers_def update_poster_def update_fields_of_def apply_set_def old_event_def)

theorem update_event_keeps_poster_witness:
  "\<exists>e'. events (snd (update_event ''/srv'' env0 (\<lambda>v. None) rename_req server1)) ''id1'' = Some e'
       \<and> poster e' = \<lparr>ptype = JStr ''upload'', pvalue = JStr ''/uploads/posterFile-1.png''\<rparr>
       \<and> eventName e' = JStr ''Relaunch''
       \<and> disk (snd (update_event ''/srv'' env0 (\<lambda>v. None) rename_req server1)) = disk server1"
proof -
  have 1: "req_file rename_req = None" and 2: "\<not> truthy (body rename_req ''posterType'')"
    and 3: "events server1 (params_id rename_req) = Some old_event"
    and 4: "params_id rename_req = ''id1''" and 5: "body rename_req ''eventName'' = JStr ''Relaunch''"
    by (simp_all add: rename_req_def rename_body_def server1_def)
  have 6: "status (fst (update_event ''/srv'' env0 (\<lambda>v. None) rename_req server1)) = 200"
    by (simp add: rename0 Let_def reply_with_def)
  have 7: "poster old_event = \<lparr>ptype = JStr ''upload'', pvalue = JStr ''/uploads/posterFile-1.png''\<rparr>"
    by (simp add: old_event_def)
  have 8: "(if JStr ''Relaunch'' = JUndefined then eventName old_event else JStr ''Relaunch'')
             = JStr ''Relaunch''"
    by simp
  show ?thesis
    using update_event_keeps_poster [OF 1 2 3, of "''/srv''" env0 "\<lambda>v. None"] 6
    unfolding 4 5 7 8 by blast
qed

lemma deleteOldPoster_string:
  "deleteOldPoster root (JStr s) d =
     Returns (if startsWith s ''/uploads/'' then unlink (path_join root s) d else d)"
  by (auto simp add: deleteOldPoster_def startsWith_def)

lemma update_poster_file:
  assumes "pvalue (poster e) = JStr s"
  shows "update_poster root e (Some u) b d =
           PosterSet (Some \<lparr>ptype = JStr ''upload'', pvalue = JStr (''/uploads/'' @ filename u)\<rparr>)
             (if startsWith s ''/uploads/'' then unlink (path_join root s) d else d)"
  using assms by (simp add: update_poster_def deleteOldPoster_string)

lemma update_poster_url:
  assumes "pvalue (poster e) = JStr s" and "b ''posterType'' = JStr ''url''"
  shows "update_poster root e None b d =
           PosterSet (Some \<lparr>ptype = JStr ''url'', pvalue = b ''posterValue''\<rparr>)
             (if ptype (poster e) = JStr ''upload'' \<and> startsWith s ''/uploads/''
              then unlink (path_join root s) d else d)"
  using assms by (simp add: update_poster_def deleteOldPoster_string)

lemma update_event_disk:
  assumes "find_error env (params_id req) = None"
      and "events st (params_id req) = Some e"
      and "update_speakers JSON_parse (body req) = Some sp"
      and "update_poster root e (req_file req) (body req) (disk st) = PosterSet np d"
  shows "disk (snd (update_event root env JSON_parse req st)) = d"
  unfolding update_event_found [OF assms]
  by (simp add: Let_def split: option.splits)

lemma delete_event_keeps_disk:
  assumes "ptype (poster e) \<noteq> JStr ''upload''"
      and "events st (params_id req) = Some e"
  shows "disk (snd (delete_event root env req st)) = disk st"
  using assms by (simp add: delete_event_def Let_def split: option.splits)

lemma example_paths:
  "path_join ''/srv'' ''/uploads/posterFile-1.png'' = ''/srv/uploads/posterFile-1.png''"
  "path_join ''/srv'' ''/uploads/../keep.txt'' = ''/srv/keep.txt''"
  by (simp_all add: path_join_def path_normalize_def Let_def)

text \<open>
  Claim C8. The claim is what the url branch (line 212) and the delete route (line
  261) do: they look at the previous type before they delete. The file branch (line
  208) does not. For a stored poster whose value is a path under \<^verbatim>\<open>/uploads/\<close>, an
  update that finds its event, passes the speakers field and brings a new file
  removes the file of that path from the disk whatever the previous type was, also
  for type \<^verbatim>\<open>url\<close>; in the same state the url branch and the delete route remove
  nothing unless the previous type was \<^verbatim>\<open>upload\<close>.
\<close>

theorem update_event_file_branch_ignores_kind:
  assumes "find_error env (params_id req) = None"
      and "events st (params_id req) = Some e"
      and "pvalue (poster e) = JStr old"
      and "startsWith old ''/uploads/''"
      and "update_speakers JSON_parse (body req) = Some sp"
      and "req_file req = Some u"
  shows "disk (snd (update_event root env JSON_parse req st)) = unlink (path_join root old) (disk st)
       \<and> (ptype (poster e) \<noteq> JStr ''upload''
            \<longrightarrow> disk (snd (update_event root env JSON_parse
                              (req\<lparr>body := (body req)(''posterType'' := JStr ''url''), req_file := None\<rparr>)
                              st)) = disk st
              \<and> disk (snd (delete_event root env req st)) = disk st)"
proof -
  let ?url = "req\<lparr>body := (body req)(''posterType'' := JStr ''url''), req_file := None\<rparr>"
  have byfile: "update_poster root e (req_file req) (body req) (disk st) =
          PosterSet (Some \<lparr>ptype = JStr ''upload'', pvalue = JStr (''/uploads/'' @ filename u)\<rparr>)
            (unlink (path_join root old) (disk st))"
    using update_poster_file [OF assms(3), of root u "body req" "disk st"] assms(4,6) by simp
  have a: "disk (snd (update_event root env JSON_parse req st)) = unlink (path_join root old) (disk st)"
    using update_event_disk [OF assms(1,2,5) byfile] .
  have b: "disk (snd (update_event root env JSON_parse ?url st)) = disk st"
    if other: "ptype (poster e) \<noteq> JStr ''upload''"
  proof -
    have 1: "find_error env (params_id ?url) = None" and 2: "events st (params_id ?url) = Some e"
      using assms(1,2) by simp_all
    have "update_speakers JSON_parse (body ?url) = update_speakers JSON_parse (body req)"
      by (simp add: update_speakers_def)
    then have 3: "update_speakers JSON_parse (body ?url) = Some sp"
      using assms(5) by simp
    have 4: "update_poster root e (req_file ?url) (body ?url) (disk st) =
               PosterSet (Some \<lparr>ptype = JStr ''url'', pvalue = body ?url ''posterValue''\<rparr>) (disk st)"
      using update_poster_url [OF assms(3), of "body ?url" root "disk st"] other by simp
    show ?thesis
      using update_event_disk [OF 1 2 3 4] .
  qed
  have c: "disk (snd (delete_event root env req st)) = disk st"
    if "ptype (poster e) \<noteq> JStr ''upload''"
    using that assms(2) by (rule delete_event_keeps_disk)
  show ?thesis
    using a b c by blast
qed

theorem update_event_file_branch_ignores_kind_witness:
  "ptype (poster linked_event) = JStr ''url''
   \<and> ''/srv/uploads/posterFile-1.png'' \<in> disk server2
   \<and> disk (snd (update_event ''/srv'' env0 (\<lambda>v. None) upload_req server2))
       = {''/srv/uploads/posterFile-2.png''}
   \<and> disk (snd (update_event ''/srv'' env0 (\<lambda>v. None)
                  (upload_req\<lparr>body := (body upload_req)(''posterType'' := JStr ''url''),
                              req_file := None\<rparr>) server2))
       = disk server2
   \<and> disk (snd (delete_event ''/srv'' env0 upload_req server2)) = disk server2"
proof -
  let ?u = "multer_file ''/srv'' ''posterFile-2.png''"
  have 1: "find_error env0 (params_id upload_req) = None"
    and 2: "events server2 (params_id upload_req) = Some linked_event"
    and 3: "pvalue (poster linked_event) = JStr ''/uploads/posterFile-1.png''"
    and 4: "startsWith ''/uploads/posterFile-1.png'' ''/uploads/''"
    and 5: "update_speakers (\<lambda>v. None) (body upload_req) = Some None"
    and 6: "req_file upload_req = Some ?u"
    and 7: "ptype (poster linked_event) = JStr ''url''"
    and 8: "''/srv/uploads/posterFile-1.png'' \<in> disk server2"
    by (simp_all add: env0_def upload_req_def rename_body_def server2_def linked_event_def
          old_event_def update_speakers_def startsWith_def)
  have 9: "unlink (path_join ''/srv'' ''/uploads/posterFile-1.png'') (disk server2)
             = {''/srv/uploads/posterFile-2.png''}"
    unfolding example_paths by (auto simp add: unlink_def server2_def)
  have 10: "ptype (poster linked_event) \<noteq> JStr ''upload''"
    by (simp add: 7)
  note th = update_event_file_branch_ignores_kind [OF 1 2 3 4 5 6, of "''/srv''"]
  have a: "disk (snd (update_event ''/srv'' env0 (\<lambda>v. None) upload_req server2))
       = {''/srv/uploads/posterFile-2.png''}"
    using th [THEN conjunct1] by (simp add: 9)
  have b: "disk (snd (update_event ''/srv'' env0 (\<lambda>v. None)
                  (upload_req\<lparr>body := (body upload_req)(''posterType'' := JStr ''url''),
                              req_file := None\<rparr>) server2))
       = disk server2
     \<and> disk (snd (delete_event ''/srv'' env0 upload_req server2)) = disk server2"
    using th [THEN conjunct2] 10 by blast
  show ?thesis
    using 7 8 a b by blast
qed

text \<open>
  The create route itself does not look at the shape of a \<^verbatim>\<open>url\<close> value: such a
  poster is stored whenever the store lets it pass.
\<close>

lemma create_event_stores_upload_path_as_url:
  "poster (the (events (snd (create_event env0 (\<lambda>v. None) link_req server0)) ''id1''))
     = \<lparr>ptype = JStr ''url'', pvalue = JStr ''/uploads/posterFile-1.png''\<rparr>"
  by (simp add: create_event_def required_present_def link_req_def create_body0_def env0_def
        server0_def Let_def create_speakers_def create_poster_def new_event_def)

lemma create_event_missing_fields:
  assumes "\<not> required_present (body req)"
  shows "create_event env JSON_parse req st =
           (reply 400 ''Event name, date, academic year, and location are required.'',
            case req_file req of None \<Rightarrow> st | Some u \<Rightarrow> st\<lparr>disk := unlink (path u) (disk st)\<rparr>)"
  using assms by (auto simp add: create_event_def required_present_def Let_def)

text \<open>
  Claim C1. The create route removes the uploaded file only when a required field is
  missing (\<open>create_event_missing_fields\<close>). When the required fields are present and
  the request is rejected later, for speakers that do not parse to a list of objects
  or for a validation error of the store, the answer is 400 and the server state is
  untouched: no document is stored, and the uploaded file stays on the disk.
\<close>

theorem create_event_rejection_keeps_upload:
  assumes "req_file req = Some u"
      and "required_present (body req)"
      and "create_speakers JSON_parse (body req) = None
           \<or> (\<exists>sp messages.
                 create_speakers JSON_parse (body req) = Some sp \<and>
                 save_error env (new_event (body req) sp (create_poster (req_file req) (body req)))
                   = Some (ValidationError messages))"
  shows "status (fst (create_event env JSON_parse req st)) = 400
       \<and> snd (create_event env JSON_parse req st) = st"
  using assms
  by (auto simp add: create_event_def required_present_def Let_def reply_def create_catch_def)

theorem create_event_rejection_keeps_upload_witness:
  "create_event env0 (\<lambda>v. None) bad_speakers_req server3
     = (reply 400 ''Invalid speakers format. Must be a valid JSON array.'', server3)
   \<and> create_event strict_env (\<lambda>v. None) no_speakers_req server3
     = (reply 400 ''At least one speaker with a valid name and ID is required.'', server3)
   \<and> ''/srv/uploads/posterFile-3.png'' \<in> disk server3
   \<and> create_event env0 (\<lambda>v. None) missing_name_req server3
     = (reply 400 ''Event name, date, academic year, and location are required.'',
        \<lparr>events = Map.empty, disk = {}\<rparr>)"
proof -
  let ?u = "multer_file ''/srv'' ''posterFile-3.png''"
  have 1: "req_file bad_speakers_req = Some ?u"
    and 2: "required_present (body bad_speakers_req)"
    and 3: "create_speakers (\<lambda>v. None) (body bad_speakers_req) = None
           \<or> (\<exists>sp messages.
                 create_speakers (\<lambda>v. None) (body bad_speakers_req) = Some sp \<and>
                 save_error env0 (new_event (body bad_speakers_req) sp
                     (create_poster (req_file bad_speakers_req) (body bad_speakers_req)))
                   = Some (ValidationError messages))"
    by (simp_all add: bad_speakers_req_def bad_speakers_body_def create_body0_def
          required_present_def create_speakers_def parse_speakers_def)
  have 4: "req_file no_speakers_req = Some ?u"
    and 5: "required_present (body no_speakers_req)"
    and 6: "create_speakers (\<lambda>v. None) (body no_speakers_req) = None
           \<or> (\<exists>sp messages.
                 create_speakers (\<lambda>v. None) (body no_speakers_req) = Some sp \<and>
                 save_error strict_env (new_event (body no_speakers_req) sp
                     (create_poster (req_file no_speakers_req) (body no_speakers_req)))
                   = Some (ValidationError messages))"
    by (simp_all add: no_speakers_req_def create_body0_def required_present_def
          create_speakers_def strict_env_def new_event_def)
  have s1: "snd (create_event env0 (\<lambda>v. None) bad_speakers_req server3) = server3"
    using create_event_rejection_keeps_upload [OF 1 2 3] by blast
  have s2: "snd (create_event strict_env (\<lambda>v. None) no_speakers_req server3) = server3"
    using create_event_rejection_keeps_upload [OF 4 5 6] by blast
  have a: "fst (create_event env0 (\<lambda>v. None) bad_speakers_req server3)
     = reply 400 ''Invalid speakers format. Must be a valid JSON array.''"
    by (simp add: create_event_def required_present_def bad_speakers_req_def bad_speakers_body_def
          create_body0_def Let_def create_speakers_def parse_speakers_def)
  have b: "fst (create_event strict_env (\<lambda>v. None) no_speakers_req server3)
     = reply 400 ''At least one speaker with a valid name and ID is required.''"
    by (simp add: create_event_def required_present_def no_speakers_req_def create_body0_def
          Let_def create_speakers_def strict_env_def new_event_def create_catch_def)
  have c: "''/srv/uploads/posterFile-3.png'' \<in> disk server3"
    by (simp add: server3_def)
  have d: "create_event env0 (\<lambda>v. None) missing_name_req server3
     = (reply 400 ''Event name, date, academic year, and location are required.'',
        \<lparr>events = Map.empty, disk = {}\<rparr>)"
    by (simp add: create_event_def required_present_def missing_name_req_def Let_def server3_def
          unlink_def multer_file_def)
  show ?thesis
    using a b c d s1 s2 by (simp add: prod_eq_iff)
qed

end
